theory Spec2Isabelle
  imports Main
begin

section \<open>The gateway's circuit breaker\<close>

text \<open>
  The API gateway keeps one mutable object per service name:
  \<^verbatim>\<open>
  const circuitBreaker = {
    'user-service': { failures: 0, open: false, lastFail: null },
    'item-service': { failures: 0, open: false, lastFail: null },
    'list-service': { failures: 0, open: false, lastFail: null }
  };
  const MAX_FAILURES = 3;
  const CIRCUIT_TIMEOUT = 60000; // 1 min
  \<close>
  The object is a map from names to states. The lookup \<open>circuitBreaker[serviceName]\<close>
  gives the state of an own key of the object, and \<open>undefined\<close> for a name that is
  no property of the object at all; the map models these two cases. For the twelve names
  that every object inherits from \<open>Object.prototype\<close> (\<open>objectPrototypeNames\<close>
  below) the lookup finds the inherited value instead, an object that is not a circuit
  state; what the helper functions do with it is not modelled, and statements about
  names without a state are made for the other names only. The gateway itself passes the
  three service names of its route table.
  \<open>lastFail\<close> is \<open>null\<close> or a
  \<open>Date.now()\<close> reading, an integer count of milliseconds. The three helper functions
  mutate the state in place; here they take the map and return the new one, and the clock
  reading \<open>Date.now()\<close> is an argument.
\<close>

record circuit_state =
  failures :: nat
  "open" :: bool
  lastFail :: "int option"

type_synonym breaker = "string \<rightharpoonup> circuit_state"

definition closed0 :: circuit_state where
  "closed0 = \<lparr>failures = 0, open = False, lastFail = None\<rparr>"

definition circuitBreaker :: breaker where
  "circuitBreaker =
     [''user-service'' \<mapsto> closed0, ''item-service'' \<mapsto> closed0, ''list-service'' \<mapsto> closed0]"

definition MAX_FAILURES :: nat where
  "MAX_FAILURES = 3"

definition CIRCUIT_TIMEOUT :: int where
  "CIRCUIT_TIMEOUT = 60000"

text \<open>
  In \<open>Date.now() - state.lastFail\<close> JavaScript converts \<open>null\<close> to the number 0.
\<close>

definition toNumber :: "int option \<Rightarrow> int" where
  "toNumber v = (case v of None \<Rightarrow> 0 | Some t \<Rightarrow> t)"

definition elapsed :: "int \<Rightarrow> circuit_state \<Rightarrow> int" where
  "elapsed now state = now - toNumber (lastFail state)"

text \<open>
  \<^verbatim>\<open>
  function canRequest(serviceName) {
    const state = circuitBreaker[serviceName];
    if (!state) return true;
    if (!state.open) return true;
    if (Date.now() - state.lastFail > CIRCUIT_TIMEOUT) {
      state.open = false;
      state.failures = 0;
      return true;
    }
    return false;
  }
  \<close>
\<close>

definition canRequest :: "int \<Rightarrow> breaker \<Rightarrow> string \<Rightarrow> bool \<times> breaker" where
  "canRequest now cb serviceName =
     (case cb serviceName of
        None \<Rightarrow> (True, cb)
      | Some state \<Rightarrow>
          if \<not> open state then (True, cb)
          else if elapsed now state > CIRCUIT_TIMEOUT
            then (True, cb(serviceName \<mapsto> state\<lparr>open := False, failures := 0\<rparr>))
          else (False, cb))"

text \<open>
  \<^verbatim>\<open>
  function recordFailure(serviceName) {
    const state = circuitBreaker[serviceName];
    if (!state) return;
    state.failures++;
    if (state.failures >= MAX_FAILURES) {
      state.open = true;
      state.lastFail = Date.now();
    }
  }
  function recordSuccess(serviceName) {
    const state = circuitBreaker[serviceName];
    if (!state) return;
    state.failures = 0;
    state.open = false;
  }
  \<close>
\<close>

definition recordFailure :: "int \<Rightarrow> breaker \<Rightarrow> string \<Rightarrow> breaker" where
  "recordFailure now cb serviceName =
     (case cb serviceName of
        None \<Rightarrow> cb
      | Some state \<Rightarrow>
          (let state1 = state\<lparr>failures := Suc (failures state)\<rparr>
           in if failures state1 \<ge> MAX_FAILURES
                then cb(serviceName \<mapsto> state1\<lparr>open := True, lastFail := Some now\<rparr>)
                else cb(serviceName \<mapsto> state1)))"

definition recordSuccess :: "breaker \<Rightarrow> string \<Rightarrow> breaker" where
  "recordSuccess cb serviceName =
     (case cb serviceName of
        None \<Rightarrow> cb
      | Some state \<Rightarrow> cb(serviceName \<mapsto> state\<lparr>failures := 0, open := False\<rparr>))"

text \<open>
  The breaker is only touched through these three functions. A run of the gateway is
  therefore a sequence of such calls, each with the service name it is made for and the
  clock reading it sees; nothing is assumed about how the readings are ordered.
\<close>

datatype event =
    Admit string int
  | Failure string int
  | Success string

fun step :: "breaker \<Rightarrow> event \<Rightarrow> breaker" where
  "step cb (Admit n t) = snd (canRequest t cb n)"
| "step cb (Failure n t) = recordFailure t cb n"
| "step cb (Success n) = recordSuccess cb n"

text \<open>The property names a plain object inherits from \<open>Object.prototype\<close> in
  Node.js. A plain name is any other name.\<close>

definition objectPrototypeNames :: "string list" where
  "objectPrototypeNames =
     [''constructor'', ''__defineGetter__'', ''__defineSetter__'', ''hasOwnProperty'',
      ''__lookupGetter__'', ''__lookupSetter__'', ''isPrototypeOf'', ''propertyIsEnumerable'',
      ''toString'', ''valueOf'', ''__proto__'', ''toLocaleString'']"

definition plainName :: "string \<Rightarrow> bool" where
  "plainName n = (n \<notin> set objectPrototypeNames)"

fun eventName :: "event \<Rightarrow> string" where
  "eventName (Admit n t) = n"
| "eventName (Failure n t) = n"
| "eventName (Success n) = n"

definition plainRun :: "event list \<Rightarrow> bool" where
  "plainRun evs = list_all (\<lambda>ev. plainName (eventName ev)) evs"

text \<open>What the lookup \<open>circuitBreaker[serviceName]\<close> finds: the state of an own key,
  \<open>undefined\<close> for a plain name that is no key, an inherited value otherwise.\<close>

datatype looked =
    Undefined
  | OwnState circuit_state
  | Inherited

definition lookup :: "breaker \<Rightarrow> string \<Rightarrow> looked" where
  "lookup cb n =
     (case cb n of
        Some st \<Rightarrow> OwnState st
      | None \<Rightarrow> if plainName n then Undefined else Inherited)"

definition run :: "event list \<Rightarrow> breaker" where
  "run evs = foldl step circuitBreaker evs"

text \<open>The state invariant of the data model: an open breaker has reached the threshold
  and carries the time it was opened at.\<close>

definition state_ok :: "circuit_state \<Rightarrow> bool" where
  "state_ok st = (open st \<longrightarrow> failures st \<ge> MAX_FAILURES \<and> lastFail st \<noteq> None)"

definition breaker_ok :: "breaker \<Rightarrow> bool" where
  "breaker_ok cb = (\<forall>n st. cb n = Some st \<longrightarrow> state_ok st)"

section \<open>Path rewriting\<close>

text \<open>
  JavaScript's string methods, on the arguments the gateway gives them:
  \<open>s.startsWith(p)\<close>, \<open>s.endsWith(p)\<close>, \<open>s.slice(n)\<close> for
  \<open>0 \<le> n\<close> (which is \<open>drop n s\<close>), \<open>s.slice(0, -1)\<close> (which is
  \<open>butlast s\<close>) and \<open>s.replace(pat, rep)\<close> with a string pattern, which
  replaces the first occurrence of \<open>pat\<close> only. Strings are lists of characters; the
  routes, prefixes and service names of the gateway are ASCII.
\<close>

definition startsWith :: "string \<Rightarrow> string \<Rightarrow> bool" where
  "startsWith s p = (take (length p) s = p)"

definition endsWith :: "string \<Rightarrow> string \<Rightarrow> bool" where
  "endsWith s p = (length p \<le> length s \<and> drop (length s - length p) s = p)"

fun replace :: "string \<Rightarrow> string \<Rightarrow> string \<Rightarrow> string" where
  "replace [] pat rep = (if pat = [] then rep else [])"
| "replace (c # cs) pat rep =
     (if startsWith (c # cs) pat then rep @ drop (length pat) (c # cs)
      else c # replace cs pat rep)"

text \<open>The part of an Express request that the gateway reads.\<close>

record 'b request =
  "method" :: string
  originalUrl :: string
  headers :: "(string \<times> string) list"
  body :: 'b

text \<open>
  \<^verbatim>\<open>
  function getTargetPath(req, pathPrefix) {
    if (req.originalUrl.startsWith(pathPrefix)) {
      let newPath = req.originalUrl.slice(pathPrefix.length);
      if (newPath === '' || newPath === '/') {
        return pathPrefix.replace('/api', '');
      }
      if (!newPath.startsWith('/')) newPath = '/' + newPath;
      return pathPrefix.replace('/api', '') + newPath;
    }
    return req.originalUrl;
  }
  \<close>
\<close>

definition getTargetPath :: "('b, 'z) request_scheme \<Rightarrow> string \<Rightarrow> string" where
  "getTargetPath req pathPrefix =
     (if startsWith (originalUrl req) pathPrefix then
        (let newPath = drop (length pathPrefix) (originalUrl req) in
         if newPath = '''' \<or> newPath = ''/'' then replace pathPrefix ''/api'' ''''
         else
           (let newPath1 = (if \<not> startsWith newPath ''/'' then ''/'' @ newPath else newPath)
            in replace pathPrefix ''/api'' '''' @ newPath1))
      else originalUrl req)"

text \<open>
  The route table: each route matches a path pattern and hands the request to
  \<open>proxyRequest\<close> with a service name and a prefix.
  \<^verbatim>\<open>
  app.all('/api/auth*',  (req, res) => proxyRequest('user-service', req, res, '/api/auth'));
  app.all('/api/users*', (req, res) => proxyRequest('user-service', req, res, '/api/users'));
  app.all('/api/items*', (req, res) => proxyRequest('item-service', req, res, '/api/items'));
  app.all('/api/lists*', (req, res) => proxyRequest('list-service', req, res, '/api/lists'));
  \<close>
\<close>

definition routes :: "(string \<times> string) list" where
  "routes =
     [(''/api/auth'', ''user-service''), (''/api/users'', ''user-service''),
      (''/api/items'', ''item-service''), (''/api/lists'', ''list-service'')]"

definition declaredPrefixes :: "string list" where
  "declaredPrefixes = map fst routes"

text \<open>A path begins with exactly one slash: its first character is a slash and its
  second, if there is one, is not.\<close>

definition oneLeadingSlash :: "string \<Rightarrow> bool" where
  "oneLeadingSlash s =
     (case s of
        [] \<Rightarrow> False
      | c # cs \<Rightarrow> c = CHR ''/'' \<and> (case cs of [] \<Rightarrow> True | d # _ \<Rightarrow> d \<noteq> CHR ''/''))"

text \<open>
  The specification's wording of the rewrite, for comparison with \<open>getTargetPath\<close>:
  the prefix's outer segment is dropped to give the backend's root path, and the remainder
  of the inbound path after the prefix is appended to it unchanged, an empty remainder
  giving the root itself.
\<close>

definition spec_backendRoot :: "string \<Rightarrow> string" where
  "spec_backendRoot P = dropWhile (\<lambda>c. c \<noteq> CHR ''/'') (tl P)"

definition spec_rewrite :: "string \<Rightarrow> string \<Rightarrow> string" where
  "spec_rewrite P inbound = spec_backendRoot P @ drop (length P) inbound"

section \<open>The HTTP client and the service registry, as the gateway sees them\<close>

text \<open>
  The gateway calls its backends through the axios library. A call is settled in one of
  three ways: the promise resolves with a response; it rejects with an error that carries
  the response received (\<open>error.response\<close>); it rejects with an error that carries
  none. The error has a message (\<open>error.message\<close>). What the network does is an
  argument of every handler: a function from the request sent to the way it settles.
\<close>

record 'q axios_config =
  c_method :: string
  c_url :: string
  c_headers :: "(string \<times> string) list"
  c_data :: "'q option"

datatype 'r outcome =
    Resolved nat 'r
  | Rejected string "(nat \<times> 'r) option"

type_synonym ('q, 'r) axios = "'q axios_config \<Rightarrow> 'r outcome"

text \<open>\<open>axios.get(url, { headers })\<close>; without the second argument the headers are
  empty.\<close>

definition axios_get :: "('q, 'r) axios \<Rightarrow> string \<Rightarrow> (string \<times> string) list \<Rightarrow> 'r outcome" where
  "axios_get axios u hs = axios \<lparr>c_method = ''get'', c_url = u, c_headers = hs, c_data = None\<rparr>"





text \<open>
  The registry module (\<open>shared/serviceRegistry\<close>) is used through its
  \<open>discover\<close> function, which returns the record registered under a name or throws.
  It is an argument of the handlers: a function from names to a record or an error. A
  name is registered when \<open>discover\<close> returns a record for it.
  \<^verbatim>\<open>
  function getServiceUrl(serviceName) {
    try {
      const service = serviceRegistry.discover(serviceName);
      return service.url;
    } catch (err) {
      return null;
    }
  }
  \<close>
\<close>

record service =
  url :: string

datatype lookup_error = NotFound

type_synonym discover = "string \<Rightarrow> lookup_error + service"

definition getServiceUrl :: "discover \<Rightarrow> string \<Rightarrow> string option" where
  "getServiceUrl discover serviceName =
     (case discover serviceName of
        Inl err \<Rightarrow> None
      | Inr service \<Rightarrow> Some (url service))"

text \<open>\<open>!baseUrl\<close> holds of \<open>null\<close> and of the empty string.\<close>

definition falsy :: "string option \<Rightarrow> bool" where
  "falsy u = (case u of None \<Rightarrow> True | Some s \<Rightarrow> s = '''')"

definition registered :: "discover \<Rightarrow> string \<Rightarrow> bool" where
  "registered discover serviceName = (case discover serviceName of Inl _ \<Rightarrow> False | Inr _ \<Rightarrow> True)"

section \<open>The reverse proxy\<close>

text \<open>
  The bodies the gateway writes itself are \<open>{ success: false, message: ... }\<close> with
  one of a few fixed messages (their text is Portuguese):
  \<^item> \<open>CircuitOpenMsg\<close>: the breaker rejected the call;
  \<^item> \<open>ServiceNotFoundMsg name\<close>: no base URL for the service;
  \<^item> \<open>ForwardErrorMsg\<close>: the call was forwarded and no response came back;
  \<^item> \<open>ServicesUnavailableMsg\<close>: an aggregation endpoint found no base URL;
  \<^item> \<open>DashboardErrorMsg\<close>: the dashboard aggregation failed.
  A body is such an error envelope, the upstream body relayed as it is, or
  \<open>{ success: true, data: ... }\<close>.
\<close>

datatype message =
    CircuitOpenMsg
  | ServiceNotFoundMsg string
  | ForwardErrorMsg
  | ServicesUnavailableMsg
  | DashboardErrorMsg

datatype 'd gw_body =
    ErrorBody message
  | Relay 'd
  | SuccessBody 'd

record 'd response =
  status :: nat
  payload :: "'d gw_body"

text \<open>The calls a handler makes, in order: to the backend, and to the breaker's two
  recording functions.\<close>

datatype 'q effect =
    CalledAxios "'q axios_config"
  | CalledRecordSuccess string
  | CalledRecordFailure string

record ('q, 'r) proxied =
  reply :: "'r response"
  cb_after :: breaker
  effects :: "'q effect list"

definition toUpperChar :: "char \<Rightarrow> char" where
  "toUpperChar c =
     (let n = (of_char c :: nat) in if 97 \<le> n \<and> n \<le> 122 then char_of (n - 32) else c)"

definition toUpperCase :: "string \<Rightarrow> string" where
  "toUpperCase s = map toUpperChar s"

text \<open>
  \<^verbatim>\<open>
  async function proxyRequest(serviceName, req, res, pathPrefix) {
    if (!canRequest(serviceName)) {
      return res.status(503).json({ success: false, message: ... });
    }
    const baseUrl = getServiceUrl(serviceName);
    if (!baseUrl) {
      return res.status(503).json({ success: false, message: ... });
    }
    const targetPath = getTargetPath(req, pathPrefix);
    const cleanBaseUrl = baseUrl.endsWith('/') ? baseUrl.slice(0, -1) : baseUrl;
    const cleanTargetPath = targetPath.startsWith('/') ? targetPath : '/' + targetPath;
    const targetUrl = cleanBaseUrl + cleanTargetPath;
    try {
      const { host, 'content-length': _cl, ...forwardHeaders } = req.headers;
      const hasBody = ['POST', 'PUT', 'PATCH'].includes(req.method.toUpperCase());
      const axiosConfig = { method: req.method, url: targetUrl, headers: forwardHeaders };
      if (hasBody) axiosConfig.data = req.body;
      const response = await axios(axiosConfig);
      recordSuccess(serviceName);
      res.status(response.status).json(response.data);
    } catch (error) {
      recordFailure(serviceName);
      if (error.response) {
        res.status(error.response.status).json(error.response.data);
      } else {
        res.status(500).json({ success: false, message: ... });
      }
    }
  }
  \<close>
  The clock is read twice: by \<open>canRequest\<close> (\<open>t0\<close>) and, after the call has
  settled, by \<open>recordFailure\<close> (\<open>t1\<close>). The handler is modelled on its own:
  what other requests do to the breaker while this one waits is outside it. The first
  two branches share \<open>refused\<close>, the try block is \<open>forward\<close>.
\<close>

definition targetUrl :: "string \<Rightarrow> ('b, 'z) request_scheme \<Rightarrow> string \<Rightarrow> string" where
  "targetUrl baseUrl req pathPrefix =
     (let targetPath = getTargetPath req pathPrefix;
          cleanBaseUrl = (if endsWith baseUrl ''/'' then butlast baseUrl else baseUrl);
          cleanTargetPath = (if startsWith targetPath ''/'' then targetPath else ''/'' @ targetPath)
      in cleanBaseUrl @ cleanTargetPath)"

definition axiosConfig :: "string \<Rightarrow> ('b, 'z) request_scheme \<Rightarrow> string \<Rightarrow> 'b axios_config" where
  "axiosConfig baseUrl req pathPrefix =
     (let forwardHeaders = filter (\<lambda>(k, v). k \<noteq> ''host'' \<and> k \<noteq> ''content-length'') (headers req);
          hasBody = (toUpperCase (method req) \<in> set [''POST'', ''PUT'', ''PATCH''])
      in \<lparr>c_method = method req, c_url = targetUrl baseUrl req pathPrefix,
          c_headers = forwardHeaders, c_data = (if hasBody then Some (body req) else None)\<rparr>)"

definition refused :: "message \<Rightarrow> breaker \<Rightarrow> ('b, 'r) proxied" where
  "refused m cb1 =
     \<lparr>reply = \<lparr>status = 503, payload = ErrorBody m\<rparr>, cb_after = cb1, effects = []\<rparr>"

definition forward ::
  "('b, 'r) axios \<Rightarrow> int \<Rightarrow> breaker \<Rightarrow> string \<Rightarrow> 'b axios_config \<Rightarrow> ('b, 'r) proxied" where
  "forward axios t1 cb1 serviceName cfg =
     (case axios cfg of
        Resolved st d \<Rightarrow>
          \<lparr>reply = \<lparr>status = st, payload = Relay d\<rparr>,
           cb_after = recordSuccess cb1 serviceName,
           effects = [CalledAxios cfg, CalledRecordSuccess serviceName]\<rparr>
      | Rejected msg r \<Rightarrow>
          \<lparr>reply =
             (case r of
                Some (st, d) \<Rightarrow> \<lparr>status = st, payload = Relay d\<rparr>
              | None \<Rightarrow> \<lparr>status = 500, payload = ErrorBody ForwardErrorMsg\<rparr>),
           cb_after = recordFailure t1 cb1 serviceName,
           effects = [CalledAxios cfg, CalledRecordFailure serviceName]\<rparr>)"

definition proxyRequest ::
  "('b, 'r) axios \<Rightarrow> int \<Rightarrow> int \<Rightarrow> discover \<Rightarrow> breaker \<Rightarrow> string \<Rightarrow> ('b, 'z) request_scheme \<Rightarrow> string
     \<Rightarrow> ('b, 'r) proxied" where
  "proxyRequest axios t0 t1 discover cb serviceName req pathPrefix =
     (case canRequest t0 cb serviceName of
        (False, cb1) \<Rightarrow> refused CircuitOpenMsg cb1
      | (True, cb1) \<Rightarrow>
          (case getServiceUrl discover serviceName of
             None \<Rightarrow> refused (ServiceNotFoundMsg serviceName) cb1
           | Some baseUrl \<Rightarrow>
               if baseUrl = [] then refused (ServiceNotFoundMsg serviceName) cb1
               else forward axios t1 cb1 serviceName (axiosConfig baseUrl req pathPrefix)))"

section \<open>The aggregated health endpoint\<close>

text \<open>
  \<^verbatim>\<open>
  app.get('/health', async (req, res) => {
    const services = ['user-service', 'item-service', 'list-service'];
    const results = {};
    for (const name of services) {
      try {
        const url = getServiceUrl(name);
        if (!url) throw new Error('...');          // "not found", in Portuguese
        const resp = await axios.get(url + '/health');
        results[name] = resp.data;
      } catch (e) {
        results[name] = { status: 'unhealthy', error: e.message };
      }
    }
    res.json(results);
  });
  \<close>
  An entry is the body the service answered with, or \<open>{status: 'unhealthy', error}\<close>
  where the error is the handler's own "not found" or the message of the failed call.
  \<open>res.json\<close> answers with status 200.
\<close>

datatype health_error =
    NotFoundError
  | CallError string

datatype 'r health_entry =
    Reported 'r
  | Unhealthy health_error

record 'r health_response =
  h_status :: nat
  results :: "string \<rightharpoonup> 'r health_entry"

definition services :: "string list" where
  "services = [''user-service'', ''item-service'', ''list-service'']"

definition probe :: "('q, 'r) axios \<Rightarrow> discover \<Rightarrow> string \<Rightarrow> 'r health_entry" where
  "probe axios discover name =
     (case getServiceUrl discover name of
        None \<Rightarrow> Unhealthy NotFoundError
      | Some u \<Rightarrow>
          if u = [] then Unhealthy NotFoundError
          else
            (case axios_get axios (u @ ''/health'') [] of
               Resolved st d \<Rightarrow> Reported d
             | Rejected msg r \<Rightarrow> Unhealthy (CallError msg)))"

definition health :: "('q, 'r) axios \<Rightarrow> discover \<Rightarrow> 'r health_response" where
  "health axios discover =
     \<lparr>h_status = 200,
      results = foldl (\<lambda>res name. res(name \<mapsto> probe axios discover name)) Map.empty services\<rparr>"

section \<open>The dashboard endpoint\<close>

text \<open>
  The dashboard handler runs behind the token middleware, which has put the verified
  claims in \<open>req.user\<close>; it reads \<open>req.user.id\<close> and the Authorization header.
  It reads three upstream bodies, each an envelope \<open>{ success, data }\<close> whose
  \<open>data\<close> may be missing. Of a list it reads \<open>items\<close> (optional, each with a
  \<open>purchased\<close> flag) and \<open>summary.estimatedTotal\<close> (optional); the list
  objects go into the answer whole. The estimated totals are JavaScript numbers: their
  type is left open, with its own zero and addition, of which nothing is assumed.
  \<open>v || 0\<close> is 0 when \<open>v\<close> is missing; a number that is there is
  taken as it is (for the number 0 that is the same; NaN is not modelled).
\<close>

record 'a envelope =
  data :: "'a option"

record profile =
  user_id :: string
  email :: string
  username :: string
  firstName :: string
  lastName :: string
  role :: string

record list_item =
  itemId :: string
  purchased :: bool

record 'n summary =
  estimatedTotal :: "'n option"

record 'n shopping_list =
  listName :: string
  items :: "list_item list option"
  summary :: "'n summary option"

record 'n stats =
  totalLists :: nat
  totalItemsInLists :: nat
  totalPurchased :: nat
  totalEstimated :: 'n
  totalCatalogItems :: nat

record 'n dashboard_data =
  user :: profile
  stats :: "'n stats"
  lists :: "'n shopping_list list"

definition orZero :: "('n::zero) option \<Rightarrow> 'n" where
  "orZero v = (case v of None \<Rightarrow> 0 | Some x \<Rightarrow> x)"

definition itemCount :: "'n shopping_list \<Rightarrow> nat" where
  "itemCount l = (case items l of None \<Rightarrow> 0 | Some xs \<Rightarrow> length xs)"

definition purchasedCount :: "'n shopping_list \<Rightarrow> nat" where
  "purchasedCount l = (case items l of None \<Rightarrow> 0 | Some xs \<Rightarrow> length (filter purchased xs))"

definition listEstimate :: "('n::zero) shopping_list \<Rightarrow> 'n" where
  "listEstimate l =
     orZero (case summary l of None \<Rightarrow> None | Some sm \<Rightarrow> estimatedTotal sm)"

text \<open>
  \<^verbatim>\<open>
  const totalLists = lists.length;
  const totalItemsInLists = lists.reduce((sum, l) => sum + (l.items?.length || 0), 0);
  const totalPurchased = lists.reduce((sum, l) =>
      sum + (l.items?.filter(i => i.purchased).length || 0), 0);
  const totalEstimated = lists.reduce((sum, l) => sum + (l.summary?.estimatedTotal || 0), 0);
  const totalCatalogItems = items.length;
  \<close>
\<close>

definition computeStats :: "('n::{zero,plus}) shopping_list list \<Rightarrow> 'c list \<Rightarrow> 'n stats" where
  "computeStats ls catalog =
     \<lparr>totalLists = length ls,
      totalItemsInLists = foldl (\<lambda>sum l. sum + itemCount l) 0 ls,
      totalPurchased = foldl (\<lambda>sum l. sum + purchasedCount l) 0 ls,
      totalEstimated = foldl (\<lambda>sum l. sum + listEstimate l) 0 ls,
      totalCatalogItems = length catalog\<rparr>"

text \<open>
  \<^verbatim>\<open>
  app.get('/api/dashboard', jwtAuthMiddleware, async (req, res) => {
    try {
      const userUrl = getServiceUrl('user-service');
      const listUrl = getServiceUrl('list-service');
      const itemUrl = getServiceUrl('item-service');
      if (!userUrl || !listUrl || !itemUrl) {
        return res.status(503).json({ success: false, message: ... });
      }
      const userResp = await axios.get(`${userUrl}/users/${req.user.id}`, {
        headers: { Authorization: req.header('Authorization') } });
      const user = userResp.data.data;
      const listsResp = await axios.get(`${listUrl}/lists`, {
        headers: { Authorization: req.header('Authorization') } });
      const lists = listsResp.data.data || [];
      const itemsResp = await axios.get(`${itemUrl}/items`);
      const items = itemsResp.data.data || [];
      ...
      res.json({ success: true, data: { user: { id: user.id, ... }, stats: { ... }, lists } });
    } catch (error) {
      res.status(500).json({ success: false, message: ... });
    }
  });
  \<close>
  The three calls are made one after the other; a call that rejects throws into the catch
  block, and so does reading \<open>user.id\<close> when the user envelope has no data (after
  all three calls). The calls have bodies of three different types, so the network is
  three functions here. \<open>aggregate\<close> is the handler from the first call on, once
  the three base URLs are known to be there.
\<close>

definition dashboardError :: "'d response" where
  "dashboardError = \<lparr>status = 500, payload = ErrorBody DashboardErrorMsg\<rparr>"

definition orEmpty :: "'a list option \<Rightarrow> 'a list" where
  "orEmpty v = (case v of None \<Rightarrow> [] | Some xs \<Rightarrow> xs)"

definition aggregate ::
  "('q, ('x profile_scheme) envelope) axios \<Rightarrow> ('q, (('n::{zero,plus}) shopping_list list) envelope) axios
     \<Rightarrow> ('q, ('c list) envelope) axios \<Rightarrow> string \<Rightarrow> string \<Rightarrow> string \<Rightarrow> string \<Rightarrow> string
     \<Rightarrow> ('n dashboard_data) response" where
  "aggregate axiosU axiosL axiosI userUrl listUrl itemUrl reqUserId authorization =
     (case axios_get axiosU (userUrl @ ''/users/'' @ reqUserId)
             [(''Authorization'', authorization)] of
        Rejected msg r \<Rightarrow> dashboardError
      | Resolved st1 userResp \<Rightarrow>
     (case axios_get axiosL (listUrl @ ''/lists'') [(''Authorization'', authorization)] of
        Rejected msg r \<Rightarrow> dashboardError
      | Resolved st2 listsResp \<Rightarrow>
     (case axios_get axiosI (itemUrl @ ''/items'') [] of
        Rejected msg r \<Rightarrow> dashboardError
      | Resolved st3 itemsResp \<Rightarrow>
     (let ls = orEmpty (data listsResp);
          catalog = orEmpty (data itemsResp)
      in case data userResp of
           None \<Rightarrow> dashboardError
         | Some u \<Rightarrow>
             \<lparr>status = 200,
              payload = SuccessBody
                \<lparr>user = \<lparr>user_id = user_id u, email = email u, username = username u,
                          firstName = firstName u, lastName = lastName u, role = role u\<rparr>,
                 stats = computeStats ls catalog,
                 lists = ls\<rparr>\<rparr>))))"

definition dashboard ::
  "('q, ('x profile_scheme) envelope) axios \<Rightarrow> ('q, (('n::{zero,plus}) shopping_list list) envelope) axios
     \<Rightarrow> ('q, ('c list) envelope) axios \<Rightarrow> discover \<Rightarrow> string \<Rightarrow> string
     \<Rightarrow> ('n dashboard_data) response" where
  "dashboard axiosU axiosL axiosI discover reqUserId authorization =
     (let userUrl = getServiceUrl discover ''user-service'';
          listUrl = getServiceUrl discover ''list-service'';
          itemUrl = getServiceUrl discover ''item-service''
      in
      case (userUrl, listUrl, itemUrl) of
        (Some uu, Some lu, Some iu) \<Rightarrow>
          if uu = [] \<or> lu = [] \<or> iu = []
            then \<lparr>status = 503, payload = ErrorBody ServicesUnavailableMsg\<rparr>
          else aggregate axiosU axiosL axiosI uu lu iu reqUserId authorization
      | _ \<Rightarrow> \<lparr>status = 503, payload = ErrorBody ServicesUnavailableMsg\<rparr>)"

subsection \<open>Helper facts\<close>

lemma breaker_ok_upd: "breaker_ok cb \<Longrightarrow> state_ok st \<Longrightarrow> breaker_ok (cb(n \<mapsto> st))"
  by (simp add: breaker_ok_def)

lemma breaker_okD: "breaker_ok cb \<Longrightarrow> cb n = Some st \<Longrightarrow> state_ok st"
  by (simp add: breaker_ok_def)

lemma canRequest_preserves_ok: "breaker_ok cb \<Longrightarrow> breaker_ok (snd (canRequest t cb n))"
  by (auto simp: canRequest_def state_ok_def intro!: breaker_ok_upd split: option.splits)

lemma recordSuccess_preserves_ok: "breaker_ok cb \<Longrightarrow> breaker_ok (recordSuccess cb n)"
  by (auto simp: recordSuccess_def state_ok_def intro!: breaker_ok_upd split: option.splits)

lemma recordFailure_preserves_ok:
  assumes "breaker_ok cb"
  shows "breaker_ok (recordFailure t cb n)"
proof (cases "cb n")
  case None
  then show ?thesis using assms by (simp add: recordFailure_def)
next
  case (Some st)
  from assms Some have st: "state_ok st" by (rule breaker_okD)
  show ?thesis
  proof (cases "MAX_FAILURES \<le> Suc (failures st)")
    case True
    with Some assms show ?thesis
      by (auto simp: recordFailure_def Let_def state_ok_def intro!: breaker_ok_upd)
  next
    case False
    with st have "state_ok (st\<lparr>failures := Suc (failures st)\<rparr>)"
      by (auto simp: state_ok_def)
    with False Some assms show ?thesis
      by (auto simp: recordFailure_def Let_def intro!: breaker_ok_upd)
  qed
qed

lemma step_preserves_ok: "breaker_ok cb \<Longrightarrow> breaker_ok (step cb ev)"
  by (cases ev)
     (simp_all add: canRequest_preserves_ok recordFailure_preserves_ok
        recordSuccess_preserves_ok)

lemma foldl_step_ok: "breaker_ok cb \<Longrightarrow> breaker_ok (foldl step cb evs)"
  by (induction evs arbitrary: cb) (simp_all add: step_preserves_ok)

lemma initial_ok: "breaker_ok circuitBreaker"
  by (auto simp: breaker_ok_def state_ok_def circuitBreaker_def closed0_def
      split: if_splits)

lemma step_untracked: "cb n = None \<Longrightarrow> step cb ev n = None"
  by (cases ev)
     (auto simp: canRequest_def recordFailure_def recordSuccess_def Let_def
         split: option.splits if_splits)

lemma foldl_step_untracked: "cb n = None \<Longrightarrow> foldl step cb evs n = None"
  by (induction evs arbitrary: cb) (simp_all add: step_untracked)

lemma step_dom: "dom (step cb ev) = dom cb"
  by (cases ev)
     (auto simp: canRequest_def recordFailure_def recordSuccess_def Let_def
         split: option.splits if_splits)

lemma foldl_step_dom: "dom (foldl step cb evs) = dom cb"
  by (induction evs arbitrary: cb) (simp_all add: step_dom)

lemma initial_dom: "dom circuitBreaker = {''user-service'', ''item-service'', ''list-service''}"
  by (auto simp: circuitBreaker_def split: if_splits)

lemma lookup_Undefined: "lookup cb n = Undefined \<longleftrightarrow> cb n = None \<and> plainName n"
  by (simp add: lookup_def split: option.splits)

section \<open>Properties of the circuit breaker\<close>

text \<open>
  Claim C2, as amended. For a tracked service name and any clock reading,
  \<open>canRequest\<close> returns false exactly when the breaker is open and the time elapsed
  since \<open>lastFail\<close> is at most \<open>CIRCUIT_TIMEOUT\<close> (60000 ms), and then it leaves
  the breaker as it is; when the breaker is open and strictly more than
  \<open>CIRCUIT_TIMEOUT\<close> has elapsed, it sets \<open>open\<close> to false, resets the failure
  count to zero and returns true. The comparison in the source is strict
  (\<open>Date.now() - state.lastFail > CIRCUIT_TIMEOUT\<close>), so at exactly 60000 ms the
  call is still rejected.
\<close>

theorem C2_canRequest_gate:
  assumes "cb n = Some st"
  shows "(fst (canRequest now cb n) = False \<longleftrightarrow> open st \<and> elapsed now st \<le> CIRCUIT_TIMEOUT)
       \<and> (open st \<and> elapsed now st \<le> CIRCUIT_TIMEOUT \<longrightarrow> canRequest now cb n = (False, cb))
       \<and> (open st \<and> elapsed now st > CIRCUIT_TIMEOUT \<longrightarrow>
            canRequest now cb n = (True, cb(n \<mapsto> st\<lparr>open := False, failures := 0\<rparr>)))"
  using assms by (auto simp: canRequest_def)

theorem C2_canRequest_gate_witness:
  "[''item-service'' \<mapsto> \<lparr>failures = 3, open = True, lastFail = Some 1000\<rparr>] ''item-service''
      = Some \<lparr>failures = 3, open = True, lastFail = Some 1000\<rparr>
   \<and> open \<lparr>failures = 3, open = True, lastFail = Some 1000\<rparr>
   \<and> elapsed 61001 \<lparr>failures = 3, open = True, lastFail = Some 1000\<rparr> > CIRCUIT_TIMEOUT
   \<and> canRequest 61001 [''item-service'' \<mapsto> \<lparr>failures = 3, open = True, lastFail = Some 1000\<rparr>]
        ''item-service''
      = (True, [''item-service'' \<mapsto> \<lparr>failures = 0, open = False, lastFail = Some 1000\<rparr>])"
proof -
  have h: "[''item-service'' \<mapsto> \<lparr>failures = 3, open = True, lastFail = Some 1000\<rparr>] ''item-service''
      = Some \<lparr>failures = 3, open = True, lastFail = Some 1000\<rparr>"
    by simp
  show ?thesis
    using h C2_canRequest_gate
        [where cb = "[''item-service'' \<mapsto> \<lparr>failures = 3, open = True, lastFail = Some 1000\<rparr>]"
           and n = "''item-service''" and now = 61001
           and st = "\<lparr>failures = 3, open = True, lastFail = Some 1000\<rparr>"]
    by (simp add: elapsed_def toNumber_def CIRCUIT_TIMEOUT_def)
qed

text \<open>
  Claim C2 as stated fails at the boundary: with the breaker opened at 1000 and the clock
  at 61000, the elapsed time equals \<open>CIRCUIT_TIMEOUT\<close>, which is not strictly less
  than it, and \<open>canRequest\<close> still returns false and resets nothing.
\<close>

theorem C2_boundary_counterexample:
  "open \<lparr>failures = 3, open = True, lastFail = Some 1000\<rparr>
   \<and> \<not> elapsed 61000 \<lparr>failures = 3, open = True, lastFail = Some 1000\<rparr> < CIRCUIT_TIMEOUT
   \<and> canRequest 61000 [''item-service'' \<mapsto> \<lparr>failures = 3, open = True, lastFail = Some 1000\<rparr>]
        ''item-service''
      = (False, [''item-service'' \<mapsto> \<lparr>failures = 3, open = True, lastFail = Some 1000\<rparr>])"
  by (simp add: canRequest_def elapsed_def toNumber_def CIRCUIT_TIMEOUT_def)

text \<open>
  Claim C3. For a tracked service whose breaker is closed with no failures counted, the
  first and the second \<open>recordFailure\<close> leave it closed, the third opens it with
  \<open>lastFail\<close> set to the time of that third call, and a \<open>canRequest\<close> that
  follows within the timeout returns false and changes nothing.
\<close>

theorem C3_three_failures_open:
  assumes "cb n = Some st" and "\<not> open st" and "failures st = 0"
    and "now - t3 \<le> CIRCUIT_TIMEOUT"
  shows "recordFailure t1 cb n n = Some (st\<lparr>failures := 1\<rparr>)
       \<and> recordFailure t2 (recordFailure t1 cb n) n n = Some (st\<lparr>failures := 2\<rparr>)
       \<and> recordFailure t3 (recordFailure t2 (recordFailure t1 cb n) n) n n
            = Some (st\<lparr>failures := 3, open := True, lastFail := Some t3\<rparr>)
       \<and> canRequest now (recordFailure t3 (recordFailure t2 (recordFailure t1 cb n) n) n) n
            = (False, recordFailure t3 (recordFailure t2 (recordFailure t1 cb n) n) n)"
  using assms
  by (simp add: recordFailure_def canRequest_def MAX_FAILURES_def Let_def elapsed_def
      toNumber_def)

theorem C3_three_failures_open_witness:
  "circuitBreaker ''item-service'' = Some closed0 \<and> \<not> open closed0 \<and> failures closed0 = 0
   \<and> (7000::int) - 5000 \<le> CIRCUIT_TIMEOUT
   \<and> recordFailure 5000 (recordFailure 4000 (recordFailure 3000 circuitBreaker ''item-service'')
         ''item-service'') ''item-service'' ''item-service''
      = Some \<lparr>failures = 3, open = True, lastFail = Some 5000\<rparr>
   \<and> fst (canRequest 7000
        (recordFailure 5000 (recordFailure 4000 (recordFailure 3000 circuitBreaker ''item-service'')
           ''item-service'') ''item-service'') ''item-service'') = False"
proof -
  have h1: "circuitBreaker ''item-service'' = Some closed0"
    by (simp add: circuitBreaker_def)
  have h2: "\<not> open closed0" and h3: "failures closed0 = 0"
    by (simp_all add: closed0_def)
  have h4: "(7000::int) - 5000 \<le> CIRCUIT_TIMEOUT"
    by (simp add: CIRCUIT_TIMEOUT_def)
  show ?thesis
    using h1 h2 h3 h4 C3_three_failures_open
        [where cb = circuitBreaker and n = "''item-service''" and st = closed0
           and now = 7000 and ?t3.0 = 5000 and ?t2.0 = 4000 and ?t1.0 = 3000]
    by (simp add: closed0_def)
qed

text \<open>
  Claim C4. In every breaker state reached from the initial one by any sequence of
  \<open>canRequest\<close>, \<open>recordFailure\<close> and \<open>recordSuccess\<close> calls, for any names and
  clock readings, a service whose \<open>open\<close> is true has \<open>failures\<close> at least
  \<open>MAX_FAILURES\<close> and a \<open>lastFail\<close> that is not null; and one
  \<open>recordSuccess\<close> on a tracked service sets its \<open>failures\<close> to 0 and its
  \<open>open\<close> to false.
\<close>

theorem C4_open_invariant:
  "(run evs n = Some st \<and> open st \<longrightarrow> failures st \<ge> MAX_FAILURES \<and> lastFail st \<noteq> None)
   \<and> (cb n = Some st' \<longrightarrow>
        recordSuccess cb n n = Some (st'\<lparr>failures := 0, open := False\<rparr>))"
proof -
  have "breaker_ok (run evs)"
    unfolding run_def by (rule foldl_step_ok [OF initial_ok])
  then have "run evs n = Some st \<Longrightarrow> state_ok st"
    by (rule breaker_okD)
  then show ?thesis
    by (auto simp: state_ok_def recordSuccess_def)
qed

theorem C4_open_invariant_witness:
  "run [Failure ''item-service'' 10, Admit ''item-service'' 15, Failure ''item-service'' 20,
        Failure ''item-service'' 30] ''item-service''
     = Some \<lparr>failures = 3, open = True, lastFail = Some 30\<rparr>
   \<and> open \<lparr>failures = 3, open = True, lastFail = Some 30\<rparr>
   \<and> failures \<lparr>failures = 3, open = True, lastFail = Some 30\<rparr> \<ge> MAX_FAILURES
   \<and> lastFail \<lparr>failures = 3, open = True, lastFail = Some 30\<rparr> \<noteq> None
   \<and> recordSuccess
        (run [Failure ''item-service'' 10, Admit ''item-service'' 15, Failure ''item-service'' 20,
              Failure ''item-service'' 30]) ''item-service'' ''item-service''
     = Some \<lparr>failures = 0, open = False, lastFail = Some 30\<rparr>"
proof -
  have h: "run [Failure ''item-service'' 10, Admit ''item-service'' 15, Failure ''item-service'' 20,
        Failure ''item-service'' 30] ''item-service''
     = Some \<lparr>failures = 3, open = True, lastFail = Some 30\<rparr>"
    by (simp add: run_def circuitBreaker_def closed0_def recordFailure_def canRequest_def
        MAX_FAILURES_def Let_def)
  show ?thesis
    using h
      C4_open_invariant [of "[Failure ''item-service'' 10, Admit ''item-service'' 15,
        Failure ''item-service'' 20, Failure ''item-service'' 30]" "''item-service''"
        "\<lparr>failures = 3, open = True, lastFail = Some 30\<rparr>"
        "run [Failure ''item-service'' 10, Admit ''item-service'' 15,
        Failure ''item-service'' 20, Failure ''item-service'' 30]"
        "\<lparr>failures = 3, open = True, lastFail = Some 30\<rparr>"]
    by simp
qed

text \<open>
  Claim C5, as amended. For a service name for which the lookup
  \<open>circuitBreaker[serviceName]\<close> gives \<open>undefined\<close> (no state, and not one of
  the names an object inherits), \<open>canRequest\<close> returns true and changes nothing, and
  \<open>recordFailure\<close> and \<open>recordSuccess\<close> return at once
  (\<open>if (!state) return;\<close>) without creating a state. Whatever calls follow for
  such names and for the names that have a state, the lookup still gives
  \<open>undefined\<close>, the name is still admitted, and the names with a state are the same
  as before: from the initial object, the three names \<open>user-service\<close>,
  \<open>item-service\<close> and \<open>list-service\<close>.
\<close>

theorem C5_untracked_stays_untracked:
  assumes "lookup cb n = Undefined" and "plainRun evs"
  shows "canRequest now cb n = (True, cb)
       \<and> recordFailure t cb n = cb
       \<and> recordSuccess cb n = cb
       \<and> lookup (foldl step cb evs) n = Undefined
       \<and> fst (canRequest now (foldl step cb evs) n)
       \<and> dom (foldl step cb evs) = dom cb
       \<and> dom (run evs) = {''user-service'', ''item-service'', ''list-service''}"
proof -
  from assms(1) have none: "cb n = None" and plain: "plainName n"
    by (simp_all add: lookup_Undefined)
  have after: "foldl step cb evs n = None"
    using none by (rule foldl_step_untracked)
  have calls: "canRequest now cb n = (True, cb)" "recordFailure t cb n = cb"
    "recordSuccess cb n = cb"
    using none by (simp_all add: canRequest_def recordFailure_def recordSuccess_def)
  have still: "lookup (foldl step cb evs) n = Undefined"
    using after plain by (simp add: lookup_Undefined)
  have admitted: "fst (canRequest now (foldl step cb evs) n)"
    using after by (simp add: canRequest_def)
  have names: "dom (run evs) = {''user-service'', ''item-service'', ''list-service''}"
    by (simp add: run_def foldl_step_dom initial_dom)
  from calls still admitted names show ?thesis
    by (simp add: foldl_step_dom)
qed

theorem C5_untracked_stays_untracked_witness:
  "lookup circuitBreaker ''payment-service'' = Undefined
   \<and> plainRun [Failure ''payment-service'' 1, Failure ''item-service'' 2,
               Failure ''payment-service'' 3, Failure ''payment-service'' 4]
   \<and> recordFailure 7 circuitBreaker ''payment-service'' = circuitBreaker
   \<and> recordSuccess circuitBreaker ''payment-service'' = circuitBreaker
   \<and> lookup (foldl step circuitBreaker
        [Failure ''payment-service'' 1, Failure ''item-service'' 2,
         Failure ''payment-service'' 3, Failure ''payment-service'' 4]) ''payment-service''
       = Undefined
   \<and> fst (canRequest 9 (foldl step circuitBreaker
        [Failure ''payment-service'' 1, Failure ''item-service'' 2,
         Failure ''payment-service'' 3, Failure ''payment-service'' 4]) ''payment-service'')"
proof -
  have h1: "lookup circuitBreaker ''payment-service'' = Undefined"
    by (simp add: lookup_def circuitBreaker_def plainName_def objectPrototypeNames_def)
  have h2: "plainRun [Failure ''payment-service'' 1, Failure ''item-service'' 2,
               Failure ''payment-service'' 3, Failure ''payment-service'' 4]"
    by (simp add: plainRun_def plainName_def objectPrototypeNames_def)
  show ?thesis
    using h1 h2 C5_untracked_stays_untracked
        [where cb = circuitBreaker and n = "''payment-service''" and now = 9 and t = 7
           and evs = "[Failure ''payment-service'' 1, Failure ''item-service'' 2,
                       Failure ''payment-service'' 3, Failure ''payment-service'' 4]"]
    by simp
qed

text \<open>
  Claim C5 as stated fails in its second half: no state is created on a recorded
  outcome. After three recorded failures for a name outside the initial object there is
  still no state for it, and the next \<open>canRequest\<close> admits it.
\<close>

theorem C5_lazy_creation_counterexample:
  "run [Failure ''payment-service'' 1, Failure ''payment-service'' 2,
        Failure ''payment-service'' 3] ''payment-service'' = None
   \<and> fst (canRequest 4
        (run [Failure ''payment-service'' 1, Failure ''payment-service'' 2,
              Failure ''payment-service'' 3]) ''payment-service'') = True"
  by (simp add: run_def circuitBreaker_def recordFailure_def canRequest_def)

section \<open>Properties of the path rewrite\<close>

lemma backend_root_of_declared:
  "P \<in> set declaredPrefixes \<Longrightarrow> replace P ''/api'' '''' = spec_backendRoot P"
  by (auto simp: declaredPrefixes_def routes_def spec_backendRoot_def startsWith_def)

lemma backend_root_one_slash:
  "P \<in> set declaredPrefixes \<Longrightarrow> oneLeadingSlash (spec_backendRoot P @ r)"
  by (auto simp: declaredPrefixes_def routes_def spec_backendRoot_def oneLeadingSlash_def)

lemma getTargetPath_at_prefix:
  "getTargetPath (req\<lparr>originalUrl := P @ r\<rparr>) P =
     (if r = [] \<or> r = ''/'' then replace P ''/api'' ''''
      else if startsWith r ''/'' then replace P ''/api'' '''' @ r
      else replace P ''/api'' '''' @ ''/'' @ r)"
  by (simp add: getTargetPath_def startsWith_def Let_def)

text \<open>
  Claim C6, as amended. For an inbound URL that starts with one of the declared prefixes
  \<open>P\<close>, with \<open>r\<close> what follows the prefix: when \<open>r\<close> is empty or is the single
  slash, the backend path is the backend's root (the prefix without its outer segment
  \<open>/api\<close>); when \<open>r\<close> starts with a slash, it is the root followed by \<open>r\<close>
  unchanged; otherwise it is the root, a slash, and \<open>r\<close>. In each case the backend
  path begins with exactly one slash. With the prefix \<open>/api/items\<close>,
  \<open>/api/items/42?x=1\<close> becomes \<open>/items/42?x=1\<close> and \<open>/api/items\<close> becomes
  \<open>/items\<close>.
\<close>

theorem C6_getTargetPath_rewrite:
  assumes "P \<in> set declaredPrefixes"
  shows "getTargetPath (req\<lparr>originalUrl := P @ r\<rparr>) P =
           (if r = [] \<or> r = ''/'' then spec_backendRoot P
            else if startsWith r ''/'' then spec_backendRoot P @ r
            else spec_backendRoot P @ ''/'' @ r)
       \<and> oneLeadingSlash (getTargetPath (req\<lparr>originalUrl := P @ r\<rparr>) P)
       \<and> getTargetPath (req\<lparr>originalUrl := ''/api/items/42?x=1''\<rparr>) ''/api/items''
            = ''/items/42?x=1''
       \<and> getTargetPath (req\<lparr>originalUrl := ''/api/items''\<rparr>) ''/api/items'' = ''/items''"
proof -
  have root: "replace P ''/api'' '''' = spec_backendRoot P"
    using assms by (rule backend_root_of_declared)
  have eq: "getTargetPath (req\<lparr>originalUrl := P @ r\<rparr>) P =
           (if r = [] \<or> r = ''/'' then spec_backendRoot P
            else if startsWith r ''/'' then spec_backendRoot P @ r
            else spec_backendRoot P @ ''/'' @ r)"
    by (simp only: getTargetPath_at_prefix root)
  have one: "oneLeadingSlash (getTargetPath (req\<lparr>originalUrl := P @ r\<rparr>) P)"
    using backend_root_one_slash [OF assms, of "[]"] backend_root_one_slash [OF assms, of r]
      backend_root_one_slash [OF assms, of "''/'' @ r"]
    by (simp add: eq)
  have ex1: "getTargetPath (req\<lparr>originalUrl := ''/api/items/42?x=1''\<rparr>) ''/api/items''
            = ''/items/42?x=1''"
    by (simp add: getTargetPath_def startsWith_def)
  have ex2: "getTargetPath (req\<lparr>originalUrl := ''/api/items''\<rparr>) ''/api/items'' = ''/items''"
    by (simp add: getTargetPath_def startsWith_def)
  from eq one ex1 ex2 show ?thesis by blast
qed

theorem C6_getTargetPath_rewrite_witness:
  "''/api/lists'' \<in> set declaredPrefixes
   \<and> getTargetPath \<lparr>method = ''GET'', originalUrl = ''/api/lists/7/items'', headers = [], body = ()\<rparr>
        ''/api/lists'' = ''/lists/7/items''
   \<and> oneLeadingSlash
        (getTargetPath \<lparr>method = ''GET'', originalUrl = ''/api/lists/7/items'', headers = [], body = ()\<rparr>
           ''/api/lists'')"
proof -
  have h: "''/api/lists'' \<in> set declaredPrefixes"
    by (simp add: declaredPrefixes_def routes_def)
  show ?thesis
    using h C6_getTargetPath_rewrite
        [where P = "''/api/lists''" and r = "''/7/items''"
           and req = "\<lparr>method = ''GET'', originalUrl = [], headers = [], body = ()\<rparr>"]
    by (simp add: spec_backendRoot_def startsWith_def oneLeadingSlash_def)
qed

text \<open>
  Claim C6 as stated fails where the remainder is the single slash: the inbound
  \<open>/api/items/\<close> has the remainder \<open>/\<close> after the prefix, which the
  specification's rewrite keeps (\<open>/items/\<close>) and \<open>getTargetPath\<close> drops
  (\<open>/items\<close>).
\<close>

theorem C6_trailing_slash_counterexample:
  "getTargetPath \<lparr>method = ''GET'', originalUrl = ''/api/items/'', headers = [], body = ()\<rparr>
     ''/api/items'' = ''/items''
   \<and> spec_rewrite ''/api/items'' ''/api/items/'' = ''/items/''
   \<and> getTargetPath \<lparr>method = ''GET'', originalUrl = ''/api/items/'', headers = [], body = ()\<rparr>
        ''/api/items'' \<noteq> spec_rewrite ''/api/items'' ''/api/items/''"
  by (simp add: getTargetPath_def startsWith_def spec_rewrite_def spec_backendRoot_def)

text \<open>
  Claim C10. When a declared prefix is followed at once by a query string, the remainder
  starts with \<open>?\<close> and not with a slash, and the rewrite puts a slash before it:
  \<open>/api/items?name=x\<close> becomes \<open>/items/?name=x\<close>.
\<close>

theorem C10_query_after_prefix:
  assumes "P \<in> set declaredPrefixes"
  shows "getTargetPath (req\<lparr>originalUrl := P @ CHR ''?'' # q\<rparr>) P
           = spec_backendRoot P @ ''/?'' @ q"
  using backend_root_of_declared [OF assms]
  by (simp add: getTargetPath_at_prefix startsWith_def)

theorem C10_query_after_prefix_witness:
  "''/api/items'' \<in> set declaredPrefixes
   \<and> getTargetPath \<lparr>method = ''GET'', originalUrl = ''/api/items?name=x'', headers = [], body = ()\<rparr>
        ''/api/items'' = ''/items/?name=x''"
proof -
  have h: "''/api/items'' \<in> set declaredPrefixes"
    by (simp add: declaredPrefixes_def routes_def)
  show ?thesis
    using h C10_query_after_prefix
        [where P = "''/api/items''" and q = "''name=x''"
           and req = "\<lparr>method = ''GET'', originalUrl = [], headers = [], body = ()\<rparr>"]
    by (simp add: spec_backendRoot_def)
qed

section \<open>Properties of the reverse proxy\<close>

lemma refused_fields:
  "status (reply (refused m cb1)) = 503" "payload (reply (refused m cb1)) = ErrorBody m"
  "cb_after (refused m cb1) = cb1" "effects (refused m cb1) = []"
  by (simp_all add: refused_def)








text \<open>
  Claim C7. When \<open>canRequest\<close> rejects the service, or the lookup of its base URL
  gives nothing (\<open>discover\<close> throws, as it does for a name that was never registered,
  or the record has no URL), the answer is a 503 with an error body written by the
  gateway, no request is sent to the backend, and neither \<open>recordFailure\<close> nor
  \<open>recordSuccess\<close> is called: the breaker is left as \<open>canRequest\<close> left it.
\<close>

theorem C7_short_circuit:
  assumes "\<not> fst (canRequest t0 cb n) \<or> falsy (getServiceUrl discover n)
           \<or> \<not> registered discover n"
  shows "status (reply (proxyRequest axios t0 t1 discover cb n req P)) = 503
       \<and> payload (reply (proxyRequest axios t0 t1 discover cb n req P))
           = ErrorBody (if fst (canRequest t0 cb n) then ServiceNotFoundMsg n else CircuitOpenMsg)
       \<and> effects (proxyRequest axios t0 t1 discover cb n req P) = []
       \<and> cb_after (proxyRequest axios t0 t1 discover cb n req P) = snd (canRequest t0 cb n)"
proof (cases "canRequest t0 cb n")
  case (Pair ok cb1)
  show ?thesis
  proof (cases ok)
    case False
    with Pair show ?thesis
      by (simp add: proxyRequest_def refused_fields)
  next
    case True
    with Pair assms have "falsy (getServiceUrl discover n)"
      by (auto simp: registered_def getServiceUrl_def falsy_def split: sum.splits)
    with Pair True show ?thesis
      by (auto simp: proxyRequest_def refused_fields falsy_def split: option.splits)
  qed
qed

theorem C7_short_circuit_witness:
  "\<not> registered (\<lambda>name. Inl NotFound) ''item-service''
   \<and> status (reply (proxyRequest (\<lambda>cfg. Resolved 200 ''{}'') 100 200 (\<lambda>name. Inl NotFound)
              circuitBreaker ''item-service''
              \<lparr>method = ''GET'', originalUrl = ''/api/items'', headers = [], body = ()\<rparr>
              ''/api/items'')) = 503
   \<and> payload (reply (proxyRequest (\<lambda>cfg. Resolved 200 ''{}'') 100 200 (\<lambda>name. Inl NotFound)
              circuitBreaker ''item-service''
              \<lparr>method = ''GET'', originalUrl = ''/api/items'', headers = [], body = ()\<rparr>
              ''/api/items'')) = ErrorBody (ServiceNotFoundMsg ''item-service'')
   \<and> effects (proxyRequest (\<lambda>cfg. Resolved 200 ''{}'') 100 200 (\<lambda>name. Inl NotFound)
              circuitBreaker ''item-service''
              \<lparr>method = ''GET'', originalUrl = ''/api/items'', headers = [], body = ()\<rparr>
              ''/api/items'') = []"
proof -
  have h: "\<not> registered (\<lambda>name. Inl NotFound) ''item-service''"
    by (simp add: registered_def)
  have adm: "fst (canRequest 100 circuitBreaker ''item-service'')"
    by (simp add: canRequest_def circuitBreaker_def closed0_def)
  show ?thesis
    using h adm C7_short_circuit
        [where ?t0.0 = 100 and cb = circuitBreaker and n = "''item-service''"
           and discover = "\<lambda>name. Inl NotFound" and axios = "\<lambda>cfg. Resolved 200 ''{}''"
           and ?t1.0 = 200 and P = "''/api/items''"
           and req = "\<lparr>method = ''GET'', originalUrl = ''/api/items'', headers = [], body = ()\<rparr>"]
    by simp
qed

section \<open>Properties of the aggregation endpoints\<close>

lemma results_fold:
  "foldl (\<lambda>res name. res(name \<mapsto> f name)) m ns n =
     (if n \<in> set ns then Some (f n) else m n)"
  by (induction ns arbitrary: m) auto

lemma health_results:
  "results (health axios discover) n =
     (if n \<in> set services then Some (probe axios discover n) else None)"
  by (simp add: health_def results_fold)

text \<open>
  Claim C9, as amended. \<open>GET /health\<close> always answers with status 200 and a mapping
  whose keys are the three names of the handler's own list (\<open>user-service\<close>,
  \<open>item-service\<close>, \<open>list-service\<close>), whether they are registered or not and
  whatever else is registered. The entry of a name is decided by the lookup and the probe
  of that name alone: an unhealthy entry with the "not found" error when the lookup gives
  no URL, an unhealthy entry with the error's message when the probe is rejected, and the
  body the service answered with otherwise.
\<close>

theorem C9_health_entries:
  "h_status (health axios discover) = 200
   \<and> dom (results (health axios discover)) = set services
   \<and> (\<forall>n \<in> set services. results (health axios discover) n = Some (probe axios discover n))
   \<and> (falsy (getServiceUrl discover n) \<longrightarrow> probe axios discover n = Unhealthy NotFoundError)
   \<and> (getServiceUrl discover n = Some u \<and> u \<noteq> [] \<longrightarrow>
        probe axios discover n =
          (case axios_get axios (u @ ''/health'') [] of
             Resolved st d \<Rightarrow> Reported d
           | Rejected msg r \<Rightarrow> Unhealthy (CallError msg)))"
proof -
  have "dom (results (health axios discover)) = set services"
    by (auto simp: health_results dom_def)
  moreover have "h_status (health axios discover) = 200"
    by (simp add: health_def)
  moreover have "falsy (getServiceUrl discover n) \<longrightarrow> probe axios discover n = Unhealthy NotFoundError"
    by (auto simp: falsy_def probe_def split: option.splits)
  moreover have "getServiceUrl discover n = Some u \<and> u \<noteq> [] \<longrightarrow>
        probe axios discover n =
          (case axios_get axios (u @ ''/health'') [] of
             Resolved st d \<Rightarrow> Reported d
           | Rejected msg r \<Rightarrow> Unhealthy (CallError msg))"
    by (simp add: probe_def)
  ultimately show ?thesis
    by (simp add: health_results)
qed

theorem C9_health_entries_witness:
  "''list-service'' \<in> set services
   \<and> getServiceUrl (\<lambda>name. Inr \<lparr>url = ''http://'' @ name\<rparr>) ''list-service''
        = Some ''http://list-service''
   \<and> h_status (health
        (\<lambda>cfg :: unit axios_config.
           if c_url cfg = ''http://list-service/health'' then Rejected ''ECONNREFUSED'' None
           else Resolved 200 ''healthy'')
        (\<lambda>name. Inr \<lparr>url = ''http://'' @ name\<rparr>)) = 200
   \<and> results (health
        (\<lambda>cfg :: unit axios_config.
           if c_url cfg = ''http://list-service/health'' then Rejected ''ECONNREFUSED'' None
           else Resolved 200 ''healthy'')
        (\<lambda>name. Inr \<lparr>url = ''http://'' @ name\<rparr>)) ''list-service''
        = Some (Unhealthy (CallError ''ECONNREFUSED''))"
proof -
  have h1: "''list-service'' \<in> set services"
    by (simp add: services_def)
  have h2: "getServiceUrl (\<lambda>name. Inr \<lparr>url = ''http://'' @ name\<rparr>) ''list-service''
        = Some ''http://list-service''"
    by (simp add: getServiceUrl_def)
  show ?thesis
    using h1 h2 C9_health_entries
        [where n = "''list-service''" and u = "''http://list-service''"
           and discover = "\<lambda>name. Inr \<lparr>url = ''http://'' @ name\<rparr>"
           and axios = "\<lambda>cfg :: unit axios_config.
             if c_url cfg = ''http://list-service/health'' then Rejected ''ECONNREFUSED'' None
             else Resolved 200 ''healthy''"]
    by (simp add: axios_get_def)
qed

text \<open>
  Claim C9 as stated fails on the set of names: the handler does not ask the registry
  which names are registered. A service registered under another name gets no entry.
\<close>

theorem C9_registered_name_counterexample:
  "registered (\<lambda>name. Inr \<lparr>url = ''http://'' @ name\<rparr>) ''payment-service''
   \<and> results (health (\<lambda>cfg :: unit axios_config. Resolved 200 ''healthy'')
        (\<lambda>name. Inr \<lparr>url = ''http://'' @ name\<rparr>)) ''payment-service'' = None"
  by (simp add: registered_def health_def services_def)

lemma foldl_plus_nat:
  "foldl (\<lambda>sum l. sum + f l) (a::nat) ls = a + sum_list (map f ls)"
  by (induction ls arbitrary: a) simp_all

lemma computeStats_sums:
  "computeStats ls catalog =
     \<lparr>totalLists = length ls,
      totalItemsInLists = sum_list (map itemCount ls),
      totalPurchased = sum_list (map purchasedCount ls),
      totalEstimated = foldl (+) 0 (map listEstimate ls),
      totalCatalogItems = length catalog\<rparr>"
  by (simp add: computeStats_def foldl_plus_nat foldl_map)

lemma dashboard_found:
  assumes "getServiceUrl discover ''user-service'' = Some uu" and "uu \<noteq> []"
    and "getServiceUrl discover ''list-service'' = Some lu" and "lu \<noteq> []"
    and "getServiceUrl discover ''item-service'' = Some iu" and "iu \<noteq> []"
  shows "dashboard axiosU axiosL axiosI discover uid auth =
           aggregate axiosU axiosL axiosI uu lu iu uid auth"
  using assms by (simp add: dashboard_def)

text \<open>
  Claim C8, as amended. With the three base URLs found, the dashboard makes its three
  upstream calls (user profile, user lists, item catalog). If any one of them is
  rejected, the answer is a 500 whose body is the error envelope alone. If all three
  resolve and the user answer carries the profile, the answer is a 200 whose stats are:
  \<open>totalLists\<close> the number of lists, \<open>totalItemsInLists\<close> the sum of the lists'
  item counts, \<open>totalPurchased\<close> the sum of their purchased-item counts,
  \<open>totalEstimated\<close> the sum, from zero and in list order, of each list's own
  \<open>summary.estimatedTotal\<close>, and \<open>totalCatalogItems\<close> the size of the catalog.
  If the user call resolves with an envelope that has no \<open>data\<close>, reading
  \<open>user.id\<close> throws into the catch block and the answer is the same 500, whatever
  the other two calls give.
\<close>

theorem C8_dashboard_all_or_nothing:
  assumes "getServiceUrl discover ''user-service'' = Some uu" and "uu \<noteq> []"
    and "getServiceUrl discover ''list-service'' = Some lu" and "lu \<noteq> []"
    and "getServiceUrl discover ''item-service'' = Some iu" and "iu \<noteq> []"
  shows "((\<exists>m r. axios_get axiosU (uu @ ''/users/'' @ uid) [(''Authorization'', auth)] = Rejected m r)
          \<or> (\<exists>m r. axios_get axiosL (lu @ ''/lists'') [(''Authorization'', auth)] = Rejected m r)
          \<or> (\<exists>m r. axios_get axiosI (iu @ ''/items'') [] = Rejected m r)
          \<longrightarrow> dashboard axiosU axiosL axiosI discover uid auth
                = \<lparr>status = 500, payload = ErrorBody DashboardErrorMsg\<rparr>)
       \<and> (axios_get axiosU (uu @ ''/users/'' @ uid) [(''Authorization'', auth)]
              = Resolved s1 \<lparr>data = Some u\<rparr>
          \<and> axios_get axiosL (lu @ ''/lists'') [(''Authorization'', auth)]
              = Resolved s2 \<lparr>data = dl\<rparr>
          \<and> axios_get axiosI (iu @ ''/items'') [] = Resolved s3 \<lparr>data = di\<rparr>
          \<longrightarrow> dashboard axiosU axiosL axiosI discover uid auth
                = \<lparr>status = 200,
                   payload = SuccessBody
                     \<lparr>user = \<lparr>user_id = user_id u, email = email u, username = username u,
                               firstName = firstName u, lastName = lastName u, role = role u\<rparr>,
                      stats =
                        \<lparr>totalLists = length (orEmpty dl),
                         totalItemsInLists = sum_list (map itemCount (orEmpty dl)),
                         totalPurchased = sum_list (map purchasedCount (orEmpty dl)),
                         totalEstimated = foldl (+) 0 (map listEstimate (orEmpty dl)),
                         totalCatalogItems = length (orEmpty di)\<rparr>,
                      lists = orEmpty dl\<rparr>\<rparr>)
       \<and> (axios_get axiosU (uu @ ''/users/'' @ uid) [(''Authorization'', auth)]
              = Resolved s1 \<lparr>data = None\<rparr>
          \<longrightarrow> dashboard axiosU axiosL axiosI discover uid auth
                = \<lparr>status = 500, payload = ErrorBody DashboardErrorMsg\<rparr>)"
proof -
  have fail: "(\<exists>m r. axios_get axiosU (uu @ ''/users/'' @ uid) [(''Authorization'', auth)] = Rejected m r)
          \<or> (\<exists>m r. axios_get axiosL (lu @ ''/lists'') [(''Authorization'', auth)] = Rejected m r)
          \<or> (\<exists>m r. axios_get axiosI (iu @ ''/items'') [] = Rejected m r)
          \<Longrightarrow> aggregate axiosU axiosL axiosI uu lu iu uid auth
                = \<lparr>status = 500, payload = ErrorBody DashboardErrorMsg\<rparr>"
    by (auto simp: aggregate_def dashboardError_def Let_def split: outcome.splits option.splits)
  have ok: "axios_get axiosU (uu @ ''/users/'' @ uid) [(''Authorization'', auth)]
              = Resolved s1 \<lparr>data = Some u\<rparr>
          \<and> axios_get axiosL (lu @ ''/lists'') [(''Authorization'', auth)]
              = Resolved s2 \<lparr>data = dl\<rparr>
          \<and> axios_get axiosI (iu @ ''/items'') [] = Resolved s3 \<lparr>data = di\<rparr>
          \<Longrightarrow> aggregate axiosU axiosL axiosI uu lu iu uid auth
                = \<lparr>status = 200,
                   payload = SuccessBody
                     \<lparr>user = \<lparr>user_id = user_id u, email = email u, username = username u,
                               firstName = firstName u, lastName = lastName u, role = role u\<rparr>,
                      stats = computeStats (orEmpty dl) (orEmpty di),
                      lists = orEmpty dl\<rparr>\<rparr>"
    by (simp add: aggregate_def Let_def)
  have absent: "axios_get axiosU (uu @ ''/users/'' @ uid) [(''Authorization'', auth)]
              = Resolved s1 \<lparr>data = None\<rparr>
          \<Longrightarrow> aggregate axiosU axiosL axiosI uu lu iu uid auth
                = \<lparr>status = 500, payload = ErrorBody DashboardErrorMsg\<rparr>"
    by (simp add: aggregate_def dashboardError_def Let_def split: outcome.splits)
  show ?thesis
    unfolding dashboard_found [OF assms]
    using fail ok absent by (simp only: computeStats_sums) blast
qed

theorem C8_dashboard_all_or_nothing_witness:
  "getServiceUrl (\<lambda>name. Inr \<lparr>url = ''http://'' @ name\<rparr>) ''list-service''
      = Some ''http://list-service''
   \<and> dashboard
        (\<lambda>cfg :: unit axios_config. Resolved 200
           \<lparr>data = Some \<lparr>user_id = ''u1'', email = ''cliente@demo.com'', username = ''cliente'',
                          firstName = ''Demo'', lastName = ''Cliente'', role = ''user''\<rparr>\<rparr>)
        (\<lambda>cfg :: unit axios_config. Rejected ''ECONNREFUSED'' None)
        (\<lambda>cfg :: unit axios_config. Resolved 200 \<lparr>data = Some [''arroz'', ''feijao'', ''cafe'']\<rparr>)
        (\<lambda>name. Inr \<lparr>url = ''http://'' @ name\<rparr>) ''u1'' ''Bearer t''
      = (\<lparr>status = 500, payload = ErrorBody DashboardErrorMsg\<rparr> :: (int dashboard_data) response)
   \<and> dashboard
        (\<lambda>cfg :: unit axios_config. Resolved 200
           \<lparr>data = Some \<lparr>user_id = ''u1'', email = ''cliente@demo.com'', username = ''cliente'',
                          firstName = ''Demo'', lastName = ''Cliente'', role = ''user''\<rparr>\<rparr>)
        (\<lambda>cfg :: unit axios_config. Resolved 200
           \<lparr>data = Some
              [\<lparr>listName = ''Feira'',
                items = Some [\<lparr>itemId = ''a'', purchased = True\<rparr>, \<lparr>itemId = ''b'', purchased = False\<rparr>],
                summary = Some \<lparr>estimatedTotal = Some (30::int)\<rparr>\<rparr>,
               \<lparr>listName = ''Vazia'', items = None, summary = None\<rparr>]\<rparr>)
        (\<lambda>cfg :: unit axios_config. Resolved 200 \<lparr>data = Some [''arroz'', ''feijao'', ''cafe'']\<rparr>)
        (\<lambda>name. Inr \<lparr>url = ''http://'' @ name\<rparr>) ''u1'' ''Bearer t''
      = \<lparr>status = 200,
         payload = SuccessBody
           \<lparr>user = \<lparr>user_id = ''u1'', email = ''cliente@demo.com'', username = ''cliente'',
                     firstName = ''Demo'', lastName = ''Cliente'', role = ''user''\<rparr>,
            stats = \<lparr>totalLists = 2, totalItemsInLists = 2, totalPurchased = 1,
                     totalEstimated = 30, totalCatalogItems = 3\<rparr>,
            lists =
              [\<lparr>listName = ''Feira'',
                items = Some [\<lparr>itemId = ''a'', purchased = True\<rparr>, \<lparr>itemId = ''b'', purchased = False\<rparr>],
                summary = Some \<lparr>estimatedTotal = Some 30\<rparr>\<rparr>,
               \<lparr>listName = ''Vazia'', items = None, summary = None\<rparr>]\<rparr>\<rparr>"
proof -
  have hu: "getServiceUrl (\<lambda>name. Inr \<lparr>url = ''http://'' @ name\<rparr>) ''user-service''
      = Some ''http://user-service''"
    and hl: "getServiceUrl (\<lambda>name. Inr \<lparr>url = ''http://'' @ name\<rparr>) ''list-service''
      = Some ''http://list-service''"
    and hi: "getServiceUrl (\<lambda>name. Inr \<lparr>url = ''http://'' @ name\<rparr>) ''item-service''
      = Some ''http://item-service''"
    by (simp_all add: getServiceUrl_def)
  have ne: "''http://user-service'' \<noteq> []" "''http://list-service'' \<noteq> []"
    "''http://item-service'' \<noteq> []"
    by simp_all
  note down = C8_dashboard_all_or_nothing
        [where discover = "\<lambda>name. Inr \<lparr>url = ''http://'' @ name\<rparr>"
           and uu = "''http://user-service''" and lu = "''http://list-service''"
           and iu = "''http://item-service''" and uid = "''u1''" and auth = "''Bearer t''"
           and axiosU = "\<lambda>cfg :: unit axios_config. Resolved 200
             \<lparr>data = Some \<lparr>user_id = ''u1'', email = ''cliente@demo.com'', username = ''cliente'',
                          firstName = ''Demo'', lastName = ''Cliente'', role = ''user''\<rparr>\<rparr>"
           and axiosL = "\<lambda>cfg :: unit axios_config.
             (Rejected ''ECONNREFUSED'' None :: ((int shopping_list list) envelope) outcome)"
           and axiosI = "\<lambda>cfg :: unit axios_config.
             Resolved 200 \<lparr>data = Some [''arroz'', ''feijao'', ''cafe'']\<rparr>"]
  note up = C8_dashboard_all_or_nothing
        [where discover = "\<lambda>name. Inr \<lparr>url = ''http://'' @ name\<rparr>"
           and uu = "''http://user-service''" and lu = "''http://list-service''"
           and iu = "''http://item-service''" and uid = "''u1''" and auth = "''Bearer t''"
           and ?s1.0 = 200 and ?s2.0 = 200 and ?s3.0 = 200
           and u = "\<lparr>user_id = ''u1'', email = ''cliente@demo.com'', username = ''cliente'',
                          firstName = ''Demo'', lastName = ''Cliente'', role = ''user''\<rparr>"
           and dl = "Some
              [\<lparr>listName = ''Feira'',
                items = Some [\<lparr>itemId = ''a'', purchased = True\<rparr>, \<lparr>itemId = ''b'', purchased = False\<rparr>],
                summary = Some \<lparr>estimatedTotal = Some (30::int)\<rparr>\<rparr>,
               \<lparr>listName = ''Vazia'', items = None, summary = None\<rparr>]"
           and di = "Some [''arroz'', ''feijao'', ''cafe'']"
           and axiosU = "\<lambda>cfg :: unit axios_config. Resolved 200
             \<lparr>data = Some \<lparr>user_id = ''u1'', email = ''cliente@demo.com'', username = ''cliente'',
                          firstName = ''Demo'', lastName = ''Cliente'', role = ''user''\<rparr>\<rparr>"
           and axiosL = "\<lambda>cfg :: unit axios_config. Resolved 200
             \<lparr>data = Some
              [\<lparr>listName = ''Feira'',
                items = Some [\<lparr>itemId = ''a'', purchased = True\<rparr>, \<lparr>itemId = ''b'', purchased = False\<rparr>],
                summary = Some \<lparr>estimatedTotal = Some (30::int)\<rparr>\<rparr>,
               \<lparr>listName = ''Vazia'', items = None, summary = None\<rparr>]\<rparr>"
           and axiosI = "\<lambda>cfg :: unit axios_config.
             Resolved 200 \<lparr>data = Some [''arroz'', ''feijao'', ''cafe'']\<rparr>"]
  show ?thesis
    using hl down [OF hu ne(1) hl ne(2) hi ne(3)] up [OF hu ne(1) hl ne(2) hi ne(3)]
    by (simp add: axios_get_def orEmpty_def itemCount_def purchasedCount_def listEstimate_def
        orZero_def)
qed

text \<open>
  Claim C8 as stated fails in its second half: all three upstream calls can succeed and
  the answer still be the 500 with no stats, when the user service answers with an
  envelope that has no \<open>data\<close>.
\<close>

theorem C8_missing_profile_counterexample:
  "dashboard
     (\<lambda>cfg :: unit axios_config. Resolved 200 (\<lparr>data = None\<rparr> :: profile envelope))
     (\<lambda>cfg :: unit axios_config. Resolved 200
        \<lparr>data = Some
           [\<lparr>listName = ''Feira'',
             items = Some [\<lparr>itemId = ''a'', purchased = True\<rparr>],
             summary = Some \<lparr>estimatedTotal = Some (30::int)\<rparr>\<rparr>]\<rparr>)
     (\<lambda>cfg :: unit axios_config. Resolved 200 \<lparr>data = Some [''arroz'', ''feijao'', ''cafe'']\<rparr>)
     (\<lambda>name. Inr \<lparr>url = ''http://'' @ name\<rparr>) ''u1'' ''Bearer t''
   = \<lparr>status = 500, payload = ErrorBody DashboardErrorMsg\<rparr>"
  by (simp add: dashboard_def getServiceUrl_def aggregate_def axios_get_def dashboardError_def
      Let_def)

end
